theory Spec2Isabelle
  imports Complex_Main "HOL-Library.Sublist"
begin

section \<open>JavaScript values used by the two source files\<close>

text \<open>
  Strings are \<open>string\<close> (lists of 8-bit characters): a character stands for the code unit
  of the same number, so the model covers the strings whose code units are below 256.
  In that range the characters removed by \<open>String.prototype.trim\<close>, and skipped by
  \<open>parseInt\<close> and \<open>parseFloat\<close>, are tab, line feed, vertical tab, form feed, carriage
  return, space and no-break space.
\<close>

definition is_ws :: "char \<Rightarrow> bool" where
  "is_ws c = (c \<in> {CHR 0x09, CHR 0x0A, CHR 0x0B, CHR 0x0C, CHR 0x0D, CHR 0x20, CHR 0xA0})"

definition trim :: "string \<Rightarrow> string" where
  "trim s = rev (dropWhile is_ws (rev (dropWhile is_ws s)))"

text \<open>A string is falsy exactly when it is empty (\<open>!s\<close>, \<open>s || d\<close>, \<open>if (s)\<close>).\<close>

definition truthy :: "string \<Rightarrow> bool" where
  "truthy s = (s \<noteq> [])"

definition is_digit :: "char \<Rightarrow> bool" where
  "is_digit c = (48 \<le> (of_char c :: nat) \<and> (of_char c :: nat) \<le> 57)"

definition is_hex_digit :: "char \<Rightarrow> bool" where
  "is_hex_digit c =
     (is_digit c \<or> (65 \<le> (of_char c :: nat) \<and> (of_char c :: nat) \<le> 70)
                \<or> (97 \<le> (of_char c :: nat) \<and> (of_char c :: nat) \<le> 102))"

definition digit_val :: "char \<Rightarrow> nat" where
  "digit_val c =
     (if is_digit c then of_char c - 48
      else if 97 \<le> (of_char c :: nat) then of_char c - 87
      else of_char c - 55)"

definition digits_value :: "int \<Rightarrow> string \<Rightarrow> int" where
  "digits_value radix ds = foldl (\<lambda>acc c. acc * radix + int (digit_val c)) 0 ds"

text \<open>
  A JavaScript number: \<open>NaN\<close>, an infinity, or a finite double, kept as the rational it
  equals (the two zeros are not told apart: both are \<open>Num 0\<close>, and the source only
  compares and stores the value).
\<close>

datatype jsnumber = NaN | Num rat | PosInfinity | NegInfinity

text \<open>
  Rounding the quotient \<open>a / b\<close> of two positive integers to the nearest double, ties to
  the even significand, as the conversion of a decimal literal does. \<open>bit_length n\<close> is
  the number of binary digits of \<open>n\<close>; \<open>ge_pow2 a b k\<close> says that \<open>a / b\<close> is at least
  \<open>2^k\<close>; \<open>binary_exponent a b\<close> is the integer \<open>e\<close> with \<open>2^e \<le> a / b < 2^(e+1)\<close>.
  Doubles in that range are \<open>2^(e-52)\<close> apart, and \<open>2^(-1074)\<close> apart below \<open>2^(-1022)\<close>,
  so the quotient is rounded to a multiple \<open>m * 2^s\<close> of that step. A magnitude that
  rounds to \<open>2^1024\<close> or more is an infinity; one of at most \<open>2^(-1075)\<close> rounds to zero.
\<close>

function bit_length :: "int \<Rightarrow> nat" where
  "bit_length n = (if n \<le> 0 then 0 else Suc (bit_length (n div 2)))"
  by pat_completeness auto
termination
  by (relation "measure nat") auto

definition ge_pow2 :: "int \<Rightarrow> int \<Rightarrow> int \<Rightarrow> bool" where
  "ge_pow2 a b k = (if 0 \<le> k then b * 2 ^ nat k \<le> a else b \<le> a * 2 ^ nat (- k))"

definition binary_exponent :: "int \<Rightarrow> int \<Rightarrow> int" where
  "binary_exponent a b =
     (let e = int (bit_length a) - int (bit_length b)
      in if ge_pow2 a b e then e else e - 1)"

definition round_half_even :: "int \<Rightarrow> int \<Rightarrow> int" where
  "round_half_even n d =
     (let f = n div d; r = n mod d
      in if 2 * r < d then f
         else if d < 2 * r then f + 1
         else if even f then f else f + 1)"

definition to_double :: "bool \<Rightarrow> int \<Rightarrow> int \<Rightarrow> jsnumber" where
  "to_double neg a b =
     (if a = 0 then Num 0
      else
        (let e = binary_exponent a b;
             s = max e (- 1022) - 52;
             m = (if 0 \<le> s then round_half_even a (b * 2 ^ nat s)
                  else round_half_even (a * 2 ^ nat (- s)) b)
         in if ge_pow2 m 1 (1024 - s) then (if neg then NegInfinity else PosInfinity)
            else
              (let r = (if 0 \<le> s then of_int (m * 2 ^ nat s)
                        else of_int m / of_int (2 ^ nat (- s)))
               in Num (if neg then - r else r))))"

text \<open>
  The double nearest to a non-negative integer is an integer again. A digit string so
  long that its double is an infinity (more than 308 decimal digits) keeps its exact
  value: the model has no infinite day count.
\<close>

definition double_of_int :: "int \<Rightarrow> int" where
  "double_of_int v = (case to_double False v 1 of Num r \<Rightarrow> \<lfloor>r\<rfloor> | _ \<Rightarrow> v)"

text \<open>
  \<open>parseInt(s)\<close> with no radix: skip leading white space, read an optional sign, read an
  optional \<open>0x\<close>/\<open>0X\<close> prefix (radix 16), take the longest run of digits; no digit gives
  \<open>NaN\<close>, which is \<open>None\<close> here. The value of the digits is rounded to a double.
\<close>

definition parseInt :: "string \<Rightarrow> int option" where
  "parseInt inputString =
     (let S = dropWhile is_ws inputString;
          sign = (if take 1 S = ''-'' then - 1 else 1);
          S1 = (if take 1 S = ''+'' \<or> take 1 S = ''-'' then drop 1 S else S);
          hex = (take 2 S1 = ''0x'' \<or> take 2 S1 = ''0X'');
          S2 = (if hex then drop 2 S1 else S1);
          Z = takeWhile (if hex then is_hex_digit else is_digit) S2
      in if Z = [] then None
         else Some (sign * double_of_int (digits_value (if hex then 16 else 10) Z)))"

definition exponent_part :: "string \<Rightarrow> int" where
  "exponent_part r =
     (case r of
        [] \<Rightarrow> 0
      | c # t \<Rightarrow>
          if c = CHR ''e'' \<or> c = CHR ''E'' then
            (let neg = (take 1 t = ''-'');
                 t1 = (if take 1 t = ''+'' \<or> take 1 t = ''-'' then drop 1 t else t);
                 ds = takeWhile is_digit t1
             in if ds = [] then 0
                else if neg then - digits_value 10 ds else digits_value 10 ds)
          else 0)"

text \<open>
  \<open>parseFloat(s)\<close>: skip leading white space, read an optional sign, then \<open>Infinity\<close> or
  the longest decimal literal (digits, an optional fraction, an optional exponent that is
  taken only when it has a digit); no literal gives \<open>NaN\<close>. The literal with digits \<open>ip\<close>,
  fraction digits \<open>fp\<close> and exponent \<open>e\<close> denotes the number written \<open>ip fp\<close> times
  \<open>10^(e - length fp)\<close>, which is rounded to a double.
\<close>

definition parseFloat :: "string \<Rightarrow> jsnumber" where
  "parseFloat inputString =
     (let S = dropWhile is_ws inputString;
          neg = (take 1 S = ''-'');
          S1 = (if take 1 S = ''+'' \<or> take 1 S = ''-'' then drop 1 S else S)
      in if take 8 S1 = ''Infinity'' then (if neg then NegInfinity else PosInfinity)
         else
           (let ip = takeWhile is_digit S1;
                r1 = dropWhile is_digit S1;
                dot = (take 1 r1 = ''.'');
                fp = (if dot then takeWhile is_digit (drop 1 r1) else []);
                r2 = (if dot then dropWhile is_digit (drop 1 r1) else r1)
            in if ip = [] \<and> fp = [] then NaN
               else
                 (let m = digits_value 10 (ip @ fp);
                      e = exponent_part r2 - int (length fp)
                  in if 0 \<le> e then to_double neg (m * 10 ^ nat e) 1
                     else to_double neg m (10 ^ nat (- e)))))"

text \<open>The comparisons \<open>x <= 0\<close> of the source: every comparison with \<open>NaN\<close> is false.\<close>

definition int_le_zero :: "int option \<Rightarrow> bool" where
  "int_le_zero x = (case x of None \<Rightarrow> False | Some n \<Rightarrow> n \<le> 0)"

definition num_le_zero :: "jsnumber \<Rightarrow> bool" where
  "num_le_zero x =
     (case x of NaN \<Rightarrow> False | Num r \<Rightarrow> r \<le> 0 | PosInfinity \<Rightarrow> False | NegInfinity \<Rightarrow> True)"

text \<open>
  A thrown (or rejected-with) value: an instance of \<open>Error\<close> with its message, or any
  other value. \<open>err instanceof Error ? err.message : fallback\<close> is \<open>error_message\<close>.
\<close>

datatype thrown = JsError string | NonError

definition error_message :: "thrown \<Rightarrow> string \<Rightarrow> string" where
  "error_message err fallback = (case err of JsError m \<Rightarrow> m | NonError \<Rightarrow> fallback)"


section \<open>The form component (AddEditPackageModal.tsx)\<close>

text \<open>The component's \<open>useState\<close> cells.\<close>

record form_state =
  title :: string
  description :: string
  duration :: string
  price :: string
  mainImageUrl :: string
  selectedDestinationId :: string
  itineraryDescriptions :: "string list"
  loading :: bool
  error :: string

text \<open>
  The \<open>package\<close> prop is typed \<open>any\<close>; \<open>handleSubmit\<close> reads its \<open>id\<close> and its
  \<open>rating\<close>, either of which may be absent.
\<close>

record package_prop =
  prop_id :: "string option"
  prop_rating :: "jsnumber option"

text \<open>
  The object handed to \<open>onSave\<close>: \<open>packageData\<close> with the trimmed itinerary texts. The key
  \<open>id\<close> is present only when the prop has a truthy \<open>id\<close>.
\<close>

record save_data =
  sd_id :: "string option"
  sd_destination_id :: string
  sd_title :: string
  sd_description :: string
  sd_duration :: "int option"
  sd_price :: jsnumber
  sd_main_image_url :: string
  sd_rating :: jsnumber
  sd_itineraryDescriptions :: "string list"

subsection \<open>The effect on \<open>duration\<close>\<close>

text \<open>The \<open>while\<close> loop that pushes empty strings until the list has \<open>days\<close> entries.\<close>

function pad_loop :: "int \<Rightarrow> string list \<Rightarrow> string list" where
  "pad_loop days newDescriptions =
     (if int (length newDescriptions) < days
      then pad_loop days (newDescriptions @ [''''])
      else newDescriptions)"
  by pat_completeness auto
termination
  by (relation "measure (\<lambda>(days, ds). nat (days - int (length ds)))") auto

text \<open>The updater passed to \<open>setItineraryDescriptions\<close> when \<open>days > 0\<close>.\<close>

definition resize_descriptions :: "int \<Rightarrow> string list \<Rightarrow> string list" where
  "resize_descriptions days prev =
     (let newDescriptions = pad_loop days prev
      in if int (length newDescriptions) > days
         then take (nat days) newDescriptions
         else newDescriptions)"

text \<open>
  \<open>useEffect(..., [duration])\<close>: \<open>days = parseInt(duration) || 0\<close> (\<open>NaN\<close> and \<open>0\<close> are
  falsy), then the list is resized, or emptied when \<open>days\<close> is not positive. The result is
  the new value of \<open>itineraryDescriptions\<close>.
\<close>

definition duration_days :: "string \<Rightarrow> int" where
  "duration_days d = (case parseInt d of None \<Rightarrow> 0 | Some n \<Rightarrow> if n = 0 then 0 else n)"

definition duration_effect :: "string \<Rightarrow> string list \<Rightarrow> string list" where
  "duration_effect d prev =
     (let days = duration_days d
      in if days > 0 then resize_descriptions days prev else [])"

subsection \<open>Editing one day's text\<close>

text \<open>
  \<open>handleItineraryChange\<close> copies the list and assigns \<open>newDescriptions[index] = value\<close>.
  Inside the bounds this replaces one entry. At or beyond the length JavaScript extends
  the array: the new entry lands at \<open>index\<close> and the slots in between are holes, which
  read as \<open>undefined\<close>; they are \<open>None\<close> in the result.
\<close>

definition handleItineraryChange :: "nat \<Rightarrow> string \<Rightarrow> string list \<Rightarrow> string option list" where
  "handleItineraryChange index v prev =
     (if index < length prev then map Some (prev[index := v])
      else map Some prev @ replicate (index - length prev) None @ [Some v])"

subsection \<open>Submitting\<close>

text \<open>
  The body of the \<open>try\<close> block up to the call of \<open>onSave\<close>: eight checks, each throwing
  \<open>new Error(message)\<close>, then the assembly of the record. \<open>Inl\<close> is the thrown error.
\<close>

definition assemble :: "package_prop option \<Rightarrow> form_state \<Rightarrow> save_data" where
  "assemble pkg st =
     \<lparr> sd_id = (case pkg of None \<Rightarrow> None
                | Some p \<Rightarrow> (case prop_id p of None \<Rightarrow> None
                            | Some i \<Rightarrow> if truthy i then Some i else None)),
       sd_destination_id = selectedDestinationId st,
       sd_title = trim (title st),
       sd_description = trim (description st),
       sd_duration = parseInt (duration st),
       sd_price = parseFloat (price st),
       sd_main_image_url = trim (mainImageUrl st),
       sd_rating = (case pkg of None \<Rightarrow> Num 0
                    | Some p \<Rightarrow> (case prop_rating p of None \<Rightarrow> Num 0
                                | Some NaN \<Rightarrow> Num 0
                                | Some r \<Rightarrow> r)),
       sd_itineraryDescriptions = map trim (itineraryDescriptions st) \<rparr>"

definition validate :: "package_prop option \<Rightarrow> form_state \<Rightarrow> thrown + save_data" where
  "validate pkg st =
     (if \<not> truthy (selectedDestinationId st) then Inl (JsError ''Please select a destination'')
      else if \<not> truthy (trim (title st)) then Inl (JsError ''Title is required'')
      else if \<not> truthy (trim (description st)) then Inl (JsError ''Description is required'')
      else if \<not> truthy (duration st) \<or> int_le_zero (parseInt (duration st))
        then Inl (JsError ''Valid duration is required'')
      else if \<not> truthy (price st) \<or> num_le_zero (parseFloat (price st))
        then Inl (JsError ''Valid price is required'')
      else if \<not> truthy (trim (mainImageUrl st)) then Inl (JsError ''Main image URL is required'')
      else if length (itineraryDescriptions st) = 0
        then Inl (JsError ''At least one itinerary day is required'')
      else if list_ex (\<lambda>desc. \<not> truthy (trim desc)) (itineraryDescriptions st)
        then Inl (JsError ''Please fill in all itinerary descriptions'')
      else Inr (assemble pkg st))"

text \<open>The calls \<open>handleSubmit\<close> makes on its two callback props, in order.\<close>

datatype callback = OnSave save_data | OnClose

text \<open>
  The whole \<open>try\<close> block. \<open>onSave d\<close> is what awaiting the save callback gives: \<open>None\<close>
  when the promise resolves, \<open>Some e\<close> when it rejects with \<open>e\<close>. \<open>onClose\<close> likewise is
  \<open>Some e\<close> when the close callback throws. The result is the callbacks invoked and the
  value caught by the \<open>catch\<close> clause, if any.
\<close>

definition handleSubmit_try ::
  "package_prop option \<Rightarrow> (save_data \<Rightarrow> thrown option) \<Rightarrow> thrown option \<Rightarrow> form_state
     \<Rightarrow> callback list \<times> thrown option" where
  "handleSubmit_try pkg onSave onClose st =
     (case validate pkg st of
        Inl e \<Rightarrow> ([], Some e)
      | Inr d \<Rightarrow>
          (case onSave d of
             Some e \<Rightarrow> ([OnSave d], Some e)
           | None \<Rightarrow> ([OnSave d, OnClose], onClose)))"

text \<open>
  \<open>handleSubmit\<close>: clear the error and raise the loading flag, run the \<open>try\<close> block on the
  field values of this render, show the message of a caught value, and lower the loading
  flag in \<open>finally\<close>. The result is the new state and the callbacks invoked.
\<close>

definition handleSubmit ::
  "package_prop option \<Rightarrow> (save_data \<Rightarrow> thrown option) \<Rightarrow> thrown option \<Rightarrow> form_state
     \<Rightarrow> form_state \<times> callback list" where
  "handleSubmit pkg onSave onClose st =
     (let st1 = st\<lparr>error := '''', loading := True\<rparr>
      in case handleSubmit_try pkg onSave onClose st of
           (calls, Some err) \<Rightarrow>
             (st1\<lparr>error := error_message err ''An error occurred while saving'',
                  loading := False\<rparr>, calls)
         | (calls, None) \<Rightarrow> (st1\<lparr>loading := False\<rparr>, calls))"


section \<open>The data access hook (usePackages.ts)\<close>

text \<open>
  Modelled from the spec: the row type \<open>Tables['packages']\<close> is declared in
  \<open>lib/supabase\<close>, which is not among the sources; its columns are those of the spec's
  data model. The hook itself reads only the identifier of a row.
\<close>

record package =
  pkg_id :: string
  pkg_destination_id :: string
  pkg_title :: string
  pkg_description :: string
  pkg_duration :: jsnumber
  pkg_price :: jsnumber
  pkg_main_image_url :: string
  pkg_rating :: jsnumber
  pkg_created_at :: string
  pkg_updated_at :: string

text \<open>
  The argument of the write operations: a row without identifier and timestamps, with an
  optional \<open>id\<close>.
\<close>

record package_input =
  in_id :: "string option"
  in_destination_id :: string
  in_title :: string
  in_description :: string
  in_duration :: jsnumber
  in_price :: jsnumber
  in_main_image_url :: string
  in_rating :: jsnumber

text \<open>
  The object passed to \<open>.update(...)\<close> on \<open>package_itinerary\<close>: a column is written exactly
  when its key is present. The object passed to \<open>.insert([...])\<close> names all three columns.
\<close>

record itinerary_patch =
  patch_package_id :: "string option"
  patch_no_of_days :: "nat option"
  patch_description :: "string list option"

record itinerary_insert =
  new_package_id :: string
  new_no_of_days :: nat
  new_description :: "string list"

text \<open>
  The remote calls the hook issues. \<open>SelectPackages f\<close> is the query on \<open>packages\<close> ordered
  by \<open>created_at\<close> descending, with \<open>.eq('destination_id', d)\<close> when \<open>f = Some d\<close>;
  \<open>UpdatePackage i u\<close> is \<open>.update(u).eq('id', i)\<close>; \<open>SelectItineraryId p\<close> is
  \<open>.select('id').eq('package_id', p).maybeSingle()\<close>; \<open>UpdateItinerary p u\<close> is
  \<open>.update(u).eq('package_id', p)\<close>.
\<close>

datatype request =
    SelectPackages "string option"
  | InsertPackage package_input
  | UpdatePackage string package_input
  | DeletePackage string
  | SelectItineraryId string
  | UpdateItinerary string itinerary_patch
  | InsertItinerary itinerary_insert

text \<open>
  Each operation below takes the response the backend gives to each call it may await,
  and returns the calls it issued, in order, next to its own results. A response is
  \<open>{data, error}\<close> with at most one of the two set: \<open>Inl e\<close> is an error \<open>e\<close>, \<open>Inr d\<close> is
  the data. A response is looked at only when its call is issued. The calls of
  \<open>console.error\<close> are left out.
\<close>

record hook_state =
  packages :: "package list"
  hook_loading :: bool
  hook_error :: "string option"

definition fetchPackages ::
  "string option \<Rightarrow> (thrown + package list option) \<Rightarrow> hook_state
     \<Rightarrow> request list \<times> hook_state" where
  "fetchPackages destinationId response st =
     (let query = SelectPackages
            (case destinationId of
               None \<Rightarrow> None
             | Some d \<Rightarrow> if truthy d then Some d else None)
      in case response of
           Inl e \<Rightarrow>
             ([query], st\<lparr>hook_error := Some (error_message e ''An error occurred''),
                          hook_loading := False\<rparr>)
         | Inr data \<Rightarrow>
             ([query], st\<lparr>packages := (case data of None \<Rightarrow> [] | Some rows \<Rightarrow> rows),
                          hook_loading := False\<rparr>))"

text \<open>
  The write operations return the calls issued, the value returned (\<open>Inr\<close>) or thrown
  (\<open>Inl\<close>), and the cached list afterwards.
\<close>

definition addPackage ::
  "package_input \<Rightarrow> (thrown + package) \<Rightarrow> package list
     \<Rightarrow> request list \<times> (thrown + package) \<times> package list" where
  "addPackage pkg response prev =
     (case response of
        Inl packageError \<Rightarrow> ([InsertPackage pkg], Inl packageError, prev)
      | Inr packageData \<Rightarrow> ([InsertPackage pkg], Inr packageData, packageData # prev))"

definition updatePackage ::
  "string \<Rightarrow> package_input \<Rightarrow> (thrown + package) \<Rightarrow> package list
     \<Rightarrow> request list \<times> (thrown + package) \<times> package list" where
  "updatePackage i updates response prev =
     (case response of
        Inl packageError \<Rightarrow> ([UpdatePackage i updates], Inl packageError, prev)
      | Inr packageData \<Rightarrow>
          ([UpdatePackage i updates], Inr packageData,
           map (\<lambda>p. if pkg_id p = i then packageData else p) prev))"

definition deletePackage ::
  "string \<Rightarrow> thrown option \<Rightarrow> package list
     \<Rightarrow> request list \<times> thrown option \<times> package list" where
  "deletePackage i response prev =
     (case response of
        Some e \<Rightarrow> ([DeletePackage i], Some e, prev)
      | None \<Rightarrow> ([DeletePackage i], None, filter (\<lambda>p. pkg_id p \<noteq> i) prev))"

text \<open>
  \<open>addOrUpdateItinerary\<close>: \<open>existing\<close> answers the existence check, of which only \<open>data\<close>
  is read (an error leaves \<open>data\<close> null); \<open>written\<close> answers the update or the insert that
  follows. The second component is the value thrown, if any.
\<close>

definition addOrUpdateItinerary ::
  "string \<Rightarrow> string list \<Rightarrow> (thrown + string option) \<Rightarrow> thrown option
     \<Rightarrow> request list \<times> thrown option" where
  "addOrUpdateItinerary packageId descr existing written =
     (case existing of
        Inr (Some existingData) \<Rightarrow>
          ([SelectItineraryId packageId,
            UpdateItinerary packageId
              \<lparr> patch_package_id = None, patch_no_of_days = None,
                patch_description = Some descr \<rparr>],
           written)
      | _ \<Rightarrow>
          ([SelectItineraryId packageId,
            InsertItinerary
              \<lparr> new_package_id = packageId, new_no_of_days = length descr,
                new_description = descr \<rparr>],
           written))"

definition addOrUpdatePackageWithItinerary ::
  "package_input \<Rightarrow> string list \<Rightarrow> (thrown + package) \<Rightarrow> (thrown + string option)
     \<Rightarrow> thrown option \<Rightarrow> package list
     \<Rightarrow> request list \<times> (thrown + package) \<times> package list" where
  "addOrUpdatePackageWithItinerary pkg descriptions saved existing written prev =
     (if length descriptions = 0
        then ([], Inl (JsError ''Itinerary descriptions are required''), prev)
      else if list_ex (\<lambda>desc. \<not> truthy (trim desc)) descriptions
        then ([], Inl (JsError ''All itinerary descriptions must be filled out''), prev)
      else
        (case (case in_id pkg of
                 None \<Rightarrow> addPackage pkg saved prev
               | Some i \<Rightarrow> if truthy i then updatePackage i pkg saved prev
                           else addPackage pkg saved prev) of
           (calls, Inl e, cache) \<Rightarrow> (calls, Inl e, cache)
         | (calls, Inr savedPackage, cache) \<Rightarrow>
             (case addOrUpdateItinerary (pkg_id savedPackage) descriptions
                     existing written of
                (calls', Some e) \<Rightarrow> (calls @ calls', Inl e, cache)
              | (calls', None) \<Rightarrow> (calls @ calls', Inr savedPackage, cache))))"


section \<open>Notions used to state the properties\<close>

text \<open>
  The eight conditions of \<open>handleSubmit\<close>, in source order, each paired with the message
  its \<open>throw\<close> carries; the flag is true when the condition fires.
\<close>

definition validation_checks :: "form_state \<Rightarrow> (bool \<times> string) list" where
  "validation_checks st =
     [(selectedDestinationId st = '''', ''Please select a destination''),
      (trim (title st) = '''', ''Title is required''),
      (trim (description st) = '''', ''Description is required''),
      (duration st = '''' \<or> int_le_zero (parseInt (duration st)), ''Valid duration is required''),
      (price st = '''' \<or> num_le_zero (parseFloat (price st)), ''Valid price is required''),
      (trim (mainImageUrl st) = '''', ''Main image URL is required''),
      (itineraryDescriptions st = [], ''At least one itinerary day is required''),
      (list_ex (\<lambda>desc. trim desc = '''') (itineraryDescriptions st),
       ''Please fill in all itinerary descriptions'')]"

definition first_failure :: "(bool \<times> string) list \<Rightarrow> string option" where
  "first_failure checks = map_option snd (find fst checks)"

text \<open>
  The same eight checks as the specification words them: the fourth fails unless the
  duration is present and greater than zero, the fifth unless the price is present and
  greater than zero. A value that is not a number is not greater than zero.
\<close>

definition num_gt_zero :: "jsnumber \<Rightarrow> bool" where
  "num_gt_zero x =
     (case x of NaN \<Rightarrow> False | Num r \<Rightarrow> 0 < r | PosInfinity \<Rightarrow> True | NegInfinity \<Rightarrow> False)"

definition spec_checks :: "form_state \<Rightarrow> (bool \<times> string) list" where
  "spec_checks st =
     [(selectedDestinationId st = '''', ''Please select a destination''),
      (trim (title st) = '''', ''Title is required''),
      (trim (description st) = '''', ''Description is required''),
      (\<not> (duration st \<noteq> '''' \<and>
           (case parseInt (duration st) of None \<Rightarrow> False | Some n \<Rightarrow> 0 < n)),
       ''Valid duration is required''),
      (\<not> (price st \<noteq> '''' \<and> num_gt_zero (parseFloat (price st))),
       ''Valid price is required''),
      (trim (mainImageUrl st) = '''', ''Main image URL is required''),
      (itineraryDescriptions st = [], ''At least one itinerary day is required''),
      (list_ex (\<lambda>desc. trim desc = '''') (itineraryDescriptions st),
       ''Please fill in all itinerary descriptions'')]"

text \<open>
  The call that the composite save issues for the package portion: an update when the
  package carries an identifier, an insert when it does not. The source tests \<open>pkg.id\<close>
  for truthiness, so an absent \<open>id\<close> and the empty string both count as no identifier.
\<close>

definition package_write :: "package_input \<Rightarrow> request" where
  "package_write pkg =
     (case in_id pkg of
        None \<Rightarrow> InsertPackage pkg
      | Some i \<Rightarrow> if i = '''' then InsertPackage pkg else UpdatePackage i pkg)"

text \<open>Concrete data for the examples: the package of the specification's test list.\<close>

definition example_form :: form_state where
  "example_form =
     \<lparr> title = ''Bali Adventure'', description = ''Island tour'', duration = ''3'',
       price = ''499.99'', mainImageUrl = ''https://x/y.jpg'', selectedDestinationId = ''D1'',
       itineraryDescriptions = [''Day1'', ''Day2'', ''Day3''], loading = False, error = '''' \<rparr>"

definition example_row :: "string \<Rightarrow> package" where
  "example_row i =
     \<lparr> pkg_id = i, pkg_destination_id = ''D1'', pkg_title = ''Bali Adventure'',
       pkg_description = ''Island tour'', pkg_duration = Num 3, pkg_price = Num (49999 / 100),
       pkg_main_image_url = ''https://x/y.jpg'', pkg_rating = Num 0,
       pkg_created_at = ''2024-01-01'', pkg_updated_at = ''2024-01-01'' \<rparr>"

definition example_input :: "string option \<Rightarrow> package_input" where
  "example_input i =
     \<lparr> in_id = i, in_destination_id = ''D1'', in_title = ''Bali Adventure'',
       in_description = ''Island tour'', in_duration = Num 3, in_price = Num (49999 / 100),
       in_main_image_url = ''https://x/y.jpg'', in_rating = Num 0 \<rparr>"

definition example_hook :: hook_state where
  "example_hook =
     \<lparr> packages = [example_row ''P1'', example_row ''P2''], hook_loading = True,
       hook_error = None \<rparr>"


section \<open>Properties of the form component\<close>

declare pad_loop.simps [simp del]
declare bit_length.simps [simp del]

subsection \<open>Resizing the itinerary list\<close>

lemma pad_loop_replicate:
  "pad_loop days ds = ds @ replicate (nat (days - int (length ds))) ''''"
proof (induction days ds rule: pad_loop.induct)
  case (1 days ds)
  show ?case
  proof (cases "int (length ds) < days")
    case True
    then have "nat (days - int (length ds)) = Suc (nat (days - int (length (ds @ ['''']))))"
      by simp
    with True 1 show ?thesis
      by (subst pad_loop.simps) (simp add: replicate_app_Cons_same)
  next
    case False
    then show ?thesis by (subst pad_loop.simps) simp
  qed
qed

lemma resize_descriptions_take:
  "0 \<le> days \<Longrightarrow>
   resize_descriptions days prev = take (nat days) (prev @ replicate (nat days - length prev) '''')"
  by (auto simp: resize_descriptions_def pad_loop_replicate Let_def nat_diff_distrib')

lemma duration_effect_closed:
  "duration_effect d prev =
     (case parseInt d of
        None \<Rightarrow> []
      | Some n \<Rightarrow> take (nat n) (prev @ replicate (nat n - length prev) ''''))"
  by (auto simp: duration_effect_def duration_days_def resize_descriptions_take Let_def
           split: option.splits)

text \<open>
  C4. After the effect on \<open>duration\<close> has run, the itinerary list has \<open>max n 0\<close> entries,
  where \<open>n\<close> is what \<open>parseInt\<close> makes of the duration field: an entry at an index below
  both the old and the new length is the old entry, an entry at an index at or beyond the
  old length is the empty string, and nothing is kept at or beyond the new length. A
  duration that does not parse, or parses to zero or less, gives the empty list.
\<close>

theorem duration_effect_resize:
  "(parseInt d = None \<longrightarrow> duration_effect d prev = []) \<and>
   (\<forall>n. parseInt d = Some n \<longrightarrow>
      int (length (duration_effect d prev)) = max n 0 \<and>
      (\<forall>i. i < length prev \<and> int i < n \<longrightarrow> duration_effect d prev ! i = prev ! i) \<and>
      (\<forall>i. length prev \<le> i \<and> int i < n \<longrightarrow> duration_effect d prev ! i = '''') \<and>
      (n \<le> 0 \<longrightarrow> duration_effect d prev = []))"
  by (auto simp: duration_effect_closed nth_append)

theorem duration_effect_resize_witness:
  "parseInt ''5'' = Some 5 \<and>
   length (duration_effect ''5'' [''Day1'', ''Day2'']) = 5 \<and>
   duration_effect ''5'' [''Day1'', ''Day2''] ! 1 = ''Day2'' \<and>
   duration_effect ''5'' [''Day1'', ''Day2''] ! 4 = '''' \<and>
   parseInt ''abc'' = None \<and>
   duration_effect ''abc'' [''Day1'', ''Day2''] = []"
proof -
  have five: "parseInt ''5'' = Some 5" and abc: "parseInt ''abc'' = None"
    by code_simp+
  note grow = duration_effect_resize [of "''5''" "[''Day1'', ''Day2'']"]
  note none = duration_effect_resize [of "''abc''" "[''Day1'', ''Day2'']"]
  from grow five have len: "int (length (duration_effect ''5'' [''Day1'', ''Day2''])) = max 5 0"
    by blast
  from grow five have keep:
    "\<forall>i. i < length [''Day1'', ''Day2''] \<and> int i < 5 \<longrightarrow>
         duration_effect ''5'' [''Day1'', ''Day2''] ! i = [''Day1'', ''Day2''] ! i"
    by blast
  from grow five have fill:
    "\<forall>i. length [''Day1'', ''Day2''] \<le> i \<and> int i < 5 \<longrightarrow>
         duration_effect ''5'' [''Day1'', ''Day2''] ! i = ''''"
    by blast
  from keep have k1: "duration_effect ''5'' [''Day1'', ''Day2''] ! 1 = ''Day2''"
    by simp
  from fill have f4: "duration_effect ''5'' [''Day1'', ''Day2''] ! 4 = ''''"
    by simp
  from none abc have "duration_effect ''abc'' [''Day1'', ''Day2''] = []"
    by blast
  with five abc len k1 f4 show ?thesis by simp
qed

subsection \<open>Editing one entry\<close>

text \<open>
  C10. For an index inside the bounds of the itinerary list, \<open>handleItineraryChange\<close>
  gives a list without holes, of the same length, whose entry at the index is the new
  value and whose every other entry is the old one.
\<close>

theorem handleItineraryChange_frame:
  "index < length prev \<Longrightarrow>
   (\<exists>new. handleItineraryChange index v prev = map Some new \<and>
          length new = length prev \<and>
          new ! index = v \<and>
          (\<forall>j. j < length prev \<and> j \<noteq> index \<longrightarrow> new ! j = prev ! j))"
  by (rule exI [of _ "prev[index := v]"]) (simp add: handleItineraryChange_def)

theorem handleItineraryChange_frame_witness:
  "(1::nat) < length [''Arrive'', '''', ''Depart''] \<and>
   handleItineraryChange 1 ''Temple'' [''Arrive'', '''', ''Depart'']
     = [Some ''Arrive'', Some ''Temple'', Some ''Depart'']"
proof -
  have b: "(1::nat) < length [''Arrive'', '''', ''Depart'']" by simp
  from handleItineraryChange_frame [OF b, of "''Temple''"] b show ?thesis
    by (simp add: handleItineraryChange_def)
qed


subsection \<open>Submit validation\<close>

text \<open>
  The chain of checks in \<open>handleSubmit\<close> throws the message of the first condition of
  \<open>validation_checks\<close> that fires, and assembles the record when none does.
\<close>

lemma validate_first_failure:
  "validate pkg st =
     (case first_failure (validation_checks st) of
        Some msg \<Rightarrow> Inl (JsError msg)
      | None \<Rightarrow> Inr (assemble pkg st))"
  by (simp add: validate_def validation_checks_def first_failure_def truthy_def)

lemma handleSubmit_invalid:
  "validate pkg st = Inl e \<Longrightarrow>
   handleSubmit pkg onSave onClose st =
     (st\<lparr>error := error_message e ''An error occurred while saving'', loading := False\<rparr>, [])"
  by (simp add: handleSubmit_def handleSubmit_try_def)

lemma handleSubmit_rejected:
  "validate pkg st = Inr d \<Longrightarrow> onSave d = Some e \<Longrightarrow>
   handleSubmit pkg onSave onClose st =
     (st\<lparr>error := error_message e ''An error occurred while saving'', loading := False\<rparr>,
      [OnSave d])"
  by (simp add: handleSubmit_def handleSubmit_try_def)

text \<open>
  C3. Submit validation is specified as eight checks in a fixed order (destination
  selected, title non-blank, description non-blank, duration present and greater than
  zero, price present and greater than zero, image URL non-blank, an itinerary entry
  exists, no itinerary entry blank), the error shown being the message of the first
  check that fails. The source follows that order, but its fourth check is
  \<open>!duration || parseInt(duration) <= 0\<close>, and \<open>NaN <= 0\<close> is false: a duration that
  is present but does not parse passes, although it is not greater than zero. With the
  duration field \<open>abc\<close> the effect on \<open>duration\<close> empties the itinerary list; in that
  state the first check of the specified list that fails is the duration check, yet the
  form shows the itinerary message. The same happens with the duration \<open>-.5\<close>. With
  the duration \<open>abc\<close> and a filled itinerary list the specified duration check still
  fails, yet no error is shown: the save callback receives a record whose duration is
  \<open>NaN\<close>, and the form closes.
\<close>

theorem handleSubmit_unparsable_duration:
  "duration_effect ''abc'' [''Day1'', ''Day2'', ''Day3''] = [] \<and>
   first_failure (spec_checks (example_form\<lparr>duration := ''abc'', itineraryDescriptions := []\<rparr>))
     = Some ''Valid duration is required'' \<and>
   handleSubmit None (\<lambda>d. None) None
       (example_form\<lparr>duration := ''abc'', itineraryDescriptions := []\<rparr>)
     = (example_form\<lparr>duration := ''abc'', itineraryDescriptions := [],
                     error := ''At least one itinerary day is required''\<rparr>, []) \<and>
   first_failure (spec_checks (example_form\<lparr>duration := ''-.5'', itineraryDescriptions := []\<rparr>))
     = Some ''Valid duration is required'' \<and>
   handleSubmit None (\<lambda>d. None) None
       (example_form\<lparr>duration := ''-.5'', itineraryDescriptions := []\<rparr>)
     = (example_form\<lparr>duration := ''-.5'', itineraryDescriptions := [],
                     error := ''At least one itinerary day is required''\<rparr>, []) \<and>
   first_failure (spec_checks (example_form\<lparr>duration := ''abc''\<rparr>))
     = Some ''Valid duration is required'' \<and>
   handleSubmit None (\<lambda>d. None) None (example_form\<lparr>duration := ''abc''\<rparr>)
     = (example_form\<lparr>duration := ''abc''\<rparr>,
        [OnSave \<lparr> sd_id = None, sd_destination_id = ''D1'', sd_title = ''Bali Adventure'',
                  sd_description = ''Island tour'', sd_duration = None,
                  sd_price = Num (2198979275086889 / 4398046511104),
                  sd_main_image_url = ''https://x/y.jpg'',
                  sd_rating = Num 0,
                  sd_itineraryDescriptions = [''Day1'', ''Day2'', ''Day3''] \<rparr>,
         OnClose])"
  by code_simp

text \<open>
  When a check of the form fires (no destination selected; title, description or image
  URL blank after trimming; duration or price empty, or parsing to zero or less; no
  itinerary entry, or one blank after trimming), the error shown is the message of the
  first check that fires, the loading flag is lowered, and neither callback is invoked.
\<close>

lemma handleSubmit_checks_reject:
  assumes "selectedDestinationId st = '''' \<or> trim (title st) = '''' \<or>
           trim (description st) = '''' \<or>
           duration st = '''' \<or> (\<exists>n. parseInt (duration st) = Some n \<and> n \<le> 0) \<or>
           price st = '''' \<or> num_le_zero (parseFloat (price st)) \<or>
           trim (mainImageUrl st) = '''' \<or>
           itineraryDescriptions st = [] \<or>
           (\<exists>desc \<in> set (itineraryDescriptions st). trim desc = '''')"
  shows "\<exists>msg. first_failure (validation_checks st) = Some msg \<and>
               error (fst (handleSubmit pkg onSave onClose st)) = msg \<and>
               loading (fst (handleSubmit pkg onSave onClose st)) = False \<and>
               snd (handleSubmit pkg onSave onClose st) = []"
proof -
  from assms have "\<exists>c \<in> set (validation_checks st). fst c"
    by (auto simp: validation_checks_def int_le_zero_def list_ex_iff)
  then obtain c where "find fst (validation_checks st) = Some c"
    by (cases "find fst (validation_checks st)") (auto simp: find_None_iff)
  then have ff: "first_failure (validation_checks st) = Some (snd c)"
    by (simp add: first_failure_def)
  then have "validate pkg st = Inl (JsError (snd c))"
    by (simp add: validate_first_failure)
  from handleSubmit_invalid [OF this] ff show ?thesis
    by (simp add: error_message_def)
qed

text \<open>
  C5. A submit with a required field blank, or otherwise failing validation, is specified
  to show the message of that field and to invoke neither the save callback nor the close
  callback. The checks of the source do so for every condition they test (lemma
  \<open>handleSubmit_checks_reject\<close>), but the duration and price checks miss the value that
  is present and does not parse: \<open>parseInt\<close> and \<open>parseFloat\<close> give \<open>NaN\<close>, and
  \<open>NaN <= 0\<close> is false. With an existing package whose itinerary has been loaded and the
  duration field holding one space, which is blank after trimming, no error is shown: the
  save callback receives a record whose duration is \<open>NaN\<close>, and the close callback is
  invoked. The same happens with the duration \<open>-.5\<close>, and, for a new package, with a
  price of one space. With a new package and the duration of one space, the effect on
  \<open>duration\<close> has emptied the itinerary list, and the message shown is the one of the
  itinerary list, not the one of the duration.
\<close>

theorem handleSubmit_blank_number_field:
  "trim (duration (example_form\<lparr>duration := '' ''\<rparr>)) = '''' \<and>
   handleSubmit (Some \<lparr>prop_id = Some ''P1'', prop_rating = None\<rparr>) (\<lambda>d. None) None
       (example_form\<lparr>duration := '' ''\<rparr>)
     = (example_form\<lparr>duration := '' ''\<rparr>,
        [OnSave \<lparr> sd_id = Some ''P1'', sd_destination_id = ''D1'',
                  sd_title = ''Bali Adventure'', sd_description = ''Island tour'',
                  sd_duration = None,
                  sd_price = Num (2198979275086889 / 4398046511104),
                  sd_main_image_url = ''https://x/y.jpg'', sd_rating = Num 0,
                  sd_itineraryDescriptions = [''Day1'', ''Day2'', ''Day3''] \<rparr>,
         OnClose]) \<and>
   snd (handleSubmit (Some \<lparr>prop_id = Some ''P1'', prop_rating = None\<rparr>) (\<lambda>d. None) None
          (example_form\<lparr>duration := ''-.5''\<rparr>))
     = [OnSave \<lparr> sd_id = Some ''P1'', sd_destination_id = ''D1'',
                 sd_title = ''Bali Adventure'', sd_description = ''Island tour'',
                 sd_duration = None,
                 sd_price = Num (2198979275086889 / 4398046511104),
                 sd_main_image_url = ''https://x/y.jpg'', sd_rating = Num 0,
                 sd_itineraryDescriptions = [''Day1'', ''Day2'', ''Day3''] \<rparr>,
        OnClose] \<and>
   trim (price (example_form\<lparr>price := '' ''\<rparr>)) = '''' \<and>
   handleSubmit None (\<lambda>d. None) None (example_form\<lparr>price := '' ''\<rparr>)
     = (example_form\<lparr>price := '' ''\<rparr>,
        [OnSave \<lparr> sd_id = None, sd_destination_id = ''D1'',
                  sd_title = ''Bali Adventure'', sd_description = ''Island tour'',
                  sd_duration = Some 3, sd_price = NaN,
                  sd_main_image_url = ''https://x/y.jpg'', sd_rating = Num 0,
                  sd_itineraryDescriptions = [''Day1'', ''Day2'', ''Day3''] \<rparr>,
         OnClose]) \<and>
   duration_effect '' '' [''Day1'', ''Day2'', ''Day3''] = [] \<and>
   handleSubmit None (\<lambda>d. None) None
       (example_form\<lparr>duration := '' '', itineraryDescriptions := []\<rparr>)
     = (example_form\<lparr>duration := '' '', itineraryDescriptions := [],
                     error := ''At least one itinerary day is required''\<rparr>, [])"
  by code_simp

text \<open>
  C8. When \<open>parseInt\<close> makes a positive integer \<open>n\<close> of the duration field, whatever
  follows the digits, the duration check of \<open>handleSubmit\<close> does not fire and the record
  assembled from the form has the duration \<open>n\<close>. When the other seven checks pass as
  well, validation accepts the state, the save callback is invoked with exactly that
  record, and the close callback follows unless the save callback rejects.
\<close>

theorem handleSubmit_integer_prefix:
  assumes "parseInt (duration st) = Some n" and "0 < n"
  shows "\<not> (\<not> truthy (duration st) \<or> int_le_zero (parseInt (duration st))) \<and>
         validate pkg st \<noteq> Inl (JsError ''Valid duration is required'') \<and>
         sd_duration (assemble pkg st) = Some n \<and>
         (selectedDestinationId st \<noteq> '''' \<and> trim (title st) \<noteq> '''' \<and>
          trim (description st) \<noteq> '''' \<and>
          price st \<noteq> '''' \<and> \<not> num_le_zero (parseFloat (price st)) \<and>
          trim (mainImageUrl st) \<noteq> '''' \<and> itineraryDescriptions st \<noteq> [] \<and>
          (\<forall>desc \<in> set (itineraryDescriptions st). trim desc \<noteq> '''') \<longrightarrow>
            validate pkg st = Inr (assemble pkg st) \<and>
            snd (handleSubmit pkg onSave onClose st)
              = OnSave (assemble pkg st)
                  # (if onSave (assemble pkg st) = None then [OnClose] else [])) \<and>
         (\<forall>d. validate pkg st = Inr d \<longrightarrow> sd_duration d = Some n) \<and>
         (\<forall>d. OnSave d \<in> set (snd (handleSubmit pkg onSave onClose st)) \<longrightarrow>
              sd_duration d = Some n)"
proof -
  have ne: "duration st \<noteq> ''''"
    using assms(1) by (auto simp: parseInt_def)
  have c1: "\<not> (\<not> truthy (duration st) \<or> int_le_zero (parseInt (duration st)))"
    using assms ne by (simp add: truthy_def int_le_zero_def)
  have c2: "validate pkg st \<noteq> Inl (JsError ''Valid duration is required'')"
    using c1 by (simp add: validate_def)
  have c3: "sd_duration (assemble pkg st) = Some n"
    using assms(1) by (simp add: assemble_def)
  have c4: "validate pkg st = Inr (assemble pkg st) \<and>
            snd (handleSubmit pkg onSave onClose st)
              = OnSave (assemble pkg st)
                  # (if onSave (assemble pkg st) = None then [OnClose] else [])"
    if other: "selectedDestinationId st \<noteq> '''' \<and> trim (title st) \<noteq> '''' \<and>
          trim (description st) \<noteq> '''' \<and>
          price st \<noteq> '''' \<and> \<not> num_le_zero (parseFloat (price st)) \<and>
          trim (mainImageUrl st) \<noteq> '''' \<and> itineraryDescriptions st \<noteq> [] \<and>
          (\<forall>desc \<in> set (itineraryDescriptions st). trim desc \<noteq> '''')"
  proof -
    from other c1 have v: "validate pkg st = Inr (assemble pkg st)"
      by (simp add: validate_def truthy_def list_ex_iff)
    then show ?thesis
      by (simp add: handleSubmit_def handleSubmit_try_def split: option.splits)
  qed
  have c5: "\<forall>d. validate pkg st = Inr d \<longrightarrow> sd_duration d = Some n"
    using c3 by (auto simp: validate_def split: if_splits)
  have c6: "\<forall>d. OnSave d \<in> set (snd (handleSubmit pkg onSave onClose st)) \<longrightarrow>
                sd_duration d = Some n"
    using c5 by (auto simp: handleSubmit_def handleSubmit_try_def split: sum.splits option.splits)
  from c1 c2 c3 c4 c5 c6 show ?thesis by blast
qed

theorem handleSubmit_integer_prefix_witness:
  "parseInt (duration (example_form\<lparr>duration := ''3abc''\<rparr>)) = Some 3 \<and> (0::int) < 3 \<and>
   validate None (example_form\<lparr>duration := ''3abc''\<rparr>)
     = Inr (assemble None (example_form\<lparr>duration := ''3abc''\<rparr>)) \<and>
   sd_duration (assemble None (example_form\<lparr>duration := ''3abc''\<rparr>)) = Some 3 \<and>
   snd (handleSubmit None (\<lambda>d. None) None (example_form\<lparr>duration := ''3abc''\<rparr>))
     = [OnSave (assemble None (example_form\<lparr>duration := ''3abc''\<rparr>)), OnClose] \<and>
   parseInt (duration (example_form\<lparr>duration := ''2.9'',
                                     itineraryDescriptions := [''Day1'', ''Day2'']\<rparr>)) = Some 2 \<and>
   snd (handleSubmit None (\<lambda>d. None) None
          (example_form\<lparr>duration := ''2.9'', itineraryDescriptions := [''Day1'', ''Day2'']\<rparr>))
     = [OnSave \<lparr> sd_id = None, sd_destination_id = ''D1'', sd_title = ''Bali Adventure'',
                 sd_description = ''Island tour'', sd_duration = Some 2,
                 sd_price = Num (2198979275086889 / 4398046511104),
                 sd_main_image_url = ''https://x/y.jpg'', sd_rating = Num 0,
                 sd_itineraryDescriptions = [''Day1'', ''Day2''] \<rparr>,
        OnClose]"
proof -
  let ?a = "example_form\<lparr>duration := ''3abc''\<rparr>"
  let ?b = "example_form\<lparr>duration := ''2.9'', itineraryDescriptions := [''Day1'', ''Day2'']\<rparr>"
  have pa: "parseInt (duration ?a) = Some 3" and pb: "parseInt (duration ?b) = Some 2"
    by code_simp+
  have oa: "selectedDestinationId ?a \<noteq> '''' \<and> trim (title ?a) \<noteq> '''' \<and>
          trim (description ?a) \<noteq> '''' \<and>
          price ?a \<noteq> '''' \<and> \<not> num_le_zero (parseFloat (price ?a)) \<and>
          trim (mainImageUrl ?a) \<noteq> '''' \<and> itineraryDescriptions ?a \<noteq> [] \<and>
          list_all (\<lambda>desc. trim desc \<noteq> '''') (itineraryDescriptions ?a)"
    by code_simp
  have ob: "selectedDestinationId ?b \<noteq> '''' \<and> trim (title ?b) \<noteq> '''' \<and>
          trim (description ?b) \<noteq> '''' \<and>
          price ?b \<noteq> '''' \<and> \<not> num_le_zero (parseFloat (price ?b)) \<and>
          trim (mainImageUrl ?b) \<noteq> '''' \<and> itineraryDescriptions ?b \<noteq> [] \<and>
          list_all (\<lambda>desc. trim desc \<noteq> '''') (itineraryDescriptions ?b)"
    by code_simp
  have rb: "assemble None ?b =
              \<lparr> sd_id = None, sd_destination_id = ''D1'', sd_title = ''Bali Adventure'',
                sd_description = ''Island tour'', sd_duration = Some 2,
                sd_price = Num (2198979275086889 / 4398046511104),
                sd_main_image_url = ''https://x/y.jpg'', sd_rating = Num 0,
                sd_itineraryDescriptions = [''Day1'', ''Day2''] \<rparr>"
    by code_simp
  from handleSubmit_integer_prefix [OF pa, of None "\<lambda>d. None" None] oa
  have a: "validate None ?a = Inr (assemble None ?a)"
    "sd_duration (assemble None ?a) = Some 3"
    "snd (handleSubmit None (\<lambda>d. None) None ?a) = [OnSave (assemble None ?a), OnClose]"
    by (simp_all add: list_all_iff)
  from handleSubmit_integer_prefix [OF pb, of None "\<lambda>d. None" None] ob
  have b: "snd (handleSubmit None (\<lambda>d. None) None ?b) = [OnSave (assemble None ?b), OnClose]"
    by (simp add: list_all_iff)
  from pa pb a b rb show ?thesis by simp
qed

text \<open>
  C9. A submit that fails, because a check of the form throws or because the save
  callback rejects, leaves every field of the form as it was: the new state is the old
  one with the error message set and the loading flag false. The close callback is not
  invoked.
\<close>

theorem handleSubmit_failure_frame:
  assumes "validate pkg st = Inl e \<or> (\<exists>d. validate pkg st = Inr d \<and> onSave d = Some e)"
  shows "fst (handleSubmit pkg onSave onClose st) =
           st\<lparr>error := error_message e ''An error occurred while saving'', loading := False\<rparr> \<and>
         title (fst (handleSubmit pkg onSave onClose st)) = title st \<and>
         description (fst (handleSubmit pkg onSave onClose st)) = description st \<and>
         duration (fst (handleSubmit pkg onSave onClose st)) = duration st \<and>
         price (fst (handleSubmit pkg onSave onClose st)) = price st \<and>
         mainImageUrl (fst (handleSubmit pkg onSave onClose st)) = mainImageUrl st \<and>
         selectedDestinationId (fst (handleSubmit pkg onSave onClose st))
           = selectedDestinationId st \<and>
         itineraryDescriptions (fst (handleSubmit pkg onSave onClose st))
           = itineraryDescriptions st \<and>
         loading (fst (handleSubmit pkg onSave onClose st)) = False \<and>
         OnClose \<notin> set (snd (handleSubmit pkg onSave onClose st))"
  using assms by (auto simp: handleSubmit_invalid handleSubmit_rejected)

theorem handleSubmit_failure_frame_witness:
  "validate None example_form = Inr (assemble None example_form) \<and>
   fst (handleSubmit None (\<lambda>d. Some (JsError ''Package update failed'')) None example_form)
     = example_form\<lparr>error := ''Package update failed'', loading := False\<rparr> \<and>
   validate None (example_form\<lparr>price := ''0''\<rparr>) = Inl (JsError ''Valid price is required'') \<and>
   fst (handleSubmit None (\<lambda>d. None) None (example_form\<lparr>price := ''0''\<rparr>))
     = example_form\<lparr>price := ''0'', error := ''Valid price is required'', loading := False\<rparr>"
proof -
  have ok: "validate None example_form = Inr (assemble None example_form)"
    by code_simp
  have bad: "validate None (example_form\<lparr>price := ''0''\<rparr>)
               = Inl (JsError ''Valid price is required'')"
    by code_simp
  have "validate None example_form = Inl (JsError ''Package update failed'') \<or>
        (\<exists>d. validate None example_form = Inr d \<and>
             (\<lambda>d. Some (JsError ''Package update failed'')) d
               = Some (JsError ''Package update failed''))"
    using ok by simp
  from handleSubmit_failure_frame [OF this, of None]
  have r1: "fst (handleSubmit None (\<lambda>d. Some (JsError ''Package update failed'')) None
                   example_form)
              = example_form\<lparr>error := ''Package update failed'', loading := False\<rparr>"
    by (simp add: error_message_def)
  have "validate None (example_form\<lparr>price := ''0''\<rparr>) = Inl (JsError ''Valid price is required'') \<or>
        (\<exists>d. validate None (example_form\<lparr>price := ''0''\<rparr>) = Inr d \<and>
             (\<lambda>d. None) d = Some (JsError ''Valid price is required''))"
    using bad by simp
  from handleSubmit_failure_frame [OF this, of None]
  have r2: "fst (handleSubmit None (\<lambda>d. None) None (example_form\<lparr>price := ''0''\<rparr>))
              = example_form\<lparr>price := ''0'', error := ''Valid price is required'',
                             loading := False\<rparr>"
    by (simp add: error_message_def)
  from ok bad r1 r2 show ?thesis by simp
qed



section \<open>Properties of the data access hook\<close>

subsection \<open>Fetching\<close>

text \<open>
  C6. \<open>fetchPackages\<close> issues one query on all packages, filtered by destination when a
  non-empty destination identifier is given. On success the cached list becomes the rows
  returned (the empty list when the backend returns no data). On failure the error string
  is set, from the error's message or the fallback text, and the cached list is the one
  held before.
\<close>

theorem fetchPackages_cache:
  "fst (fetchPackages destinationId response st) =
     [SelectPackages (if destinationId = None \<or> destinationId = Some '''' then None
                      else destinationId)] \<and>
   (\<forall>rows. response = Inr (Some rows) \<longrightarrow>
      packages (snd (fetchPackages destinationId response st)) = rows) \<and>
   (response = Inr None \<longrightarrow> packages (snd (fetchPackages destinationId response st)) = []) \<and>
   (\<forall>e. response = Inl e \<longrightarrow>
      packages (snd (fetchPackages destinationId response st)) = packages st \<and>
      hook_error (snd (fetchPackages destinationId response st))
        = Some (error_message e ''An error occurred''))"
  by (auto simp: fetchPackages_def truthy_def Let_def split: option.splits sum.splits)

theorem fetchPackages_cache_witness:
  "fst (fetchPackages (Some ''D1'') (Inl (JsError ''network down'')) example_hook)
     = [SelectPackages (Some ''D1'')] \<and>
   packages (snd (fetchPackages (Some ''D1'') (Inl (JsError ''network down'')) example_hook))
     = [example_row ''P1'', example_row ''P2''] \<and>
   hook_error (snd (fetchPackages (Some ''D1'') (Inl (JsError ''network down'')) example_hook))
     = Some ''network down'' \<and>
   packages (snd (fetchPackages None (Inr (Some [example_row ''P3''])) example_hook))
     = [example_row ''P3'']"
proof -
  note fail = fetchPackages_cache
    [of "Some ''D1''" "Inl (JsError ''network down'')" example_hook]
  note succeed = fetchPackages_cache [of None "Inr (Some [example_row ''P3''])" example_hook]
  from fail have q: "fst (fetchPackages (Some ''D1'') (Inl (JsError ''network down'')) example_hook)
                       = [SelectPackages (Some ''D1'')]"
    by simp
  from fail have k:
    "packages (snd (fetchPackages (Some ''D1'') (Inl (JsError ''network down'')) example_hook))
       = packages example_hook"
    and m:
    "hook_error (snd (fetchPackages (Some ''D1'') (Inl (JsError ''network down'')) example_hook))
       = Some (error_message (JsError ''network down'') ''An error occurred'')"
    by blast+
  from succeed
  have r: "packages (snd (fetchPackages None (Inr (Some [example_row ''P3''])) example_hook))
             = [example_row ''P3'']"
    by blast
  from q k m r show ?thesis
    by (simp add: example_hook_def error_message_def)
qed

subsection \<open>Deleting\<close>

lemma count_list_filter:
  "count_list (filter P xs) x = (if P x then count_list xs x else 0)"
  by (induction xs) auto

text \<open>
  C7. A delete that the backend accepts issues one remote delete and leaves in the cached
  list no entry with the given identifier, while every entry with another identifier
  stays, as often as before and in the same relative order: the new list is the old one
  with the entries of that identifier taken out.
\<close>

theorem deletePackage_removes_exactly:
  "deletePackage i None prev = (calls, thrown, cache) \<Longrightarrow>
     calls = [DeletePackage i] \<and> thrown = None \<and>
     (\<forall>p \<in> set cache. pkg_id p \<noteq> i) \<and>
     (\<forall>p. pkg_id p \<noteq> i \<longrightarrow> count_list cache p = count_list prev p) \<and>
     subseq cache prev \<and>
     cache = filter (\<lambda>p. pkg_id p \<noteq> i) prev"
  by (auto simp: deletePackage_def count_list_filter)

theorem deletePackage_removes_exactly_witness:
  "deletePackage ''P2'' None [example_row ''P1'', example_row ''P2'', example_row ''P3'']
     = ([DeletePackage ''P2''], None, [example_row ''P1'', example_row ''P3''])"
proof -
  obtain calls thrown cache where
    run: "deletePackage ''P2'' None [example_row ''P1'', example_row ''P2'', example_row ''P3'']
            = (calls, thrown, cache)"
    by (rule prod_cases3)
  from deletePackage_removes_exactly [OF run]
  have "calls = [DeletePackage ''P2'']" and "thrown = None"
    and "cache = filter (\<lambda>p. pkg_id p \<noteq> ''P2'')
                   [example_row ''P1'', example_row ''P2'', example_row ''P3'']"
    by blast+
  with run show ?thesis
    by (simp add: example_row_def)
qed

subsection \<open>Saving a package with its itinerary\<close>

lemma package_portion:
  "(case in_id pkg of
      None \<Rightarrow> addPackage pkg saved prev
    | Some i \<Rightarrow> if truthy i then updatePackage i pkg saved prev else addPackage pkg saved prev)
   = ([package_write pkg],
      saved,
      (case saved of
         Inl e \<Rightarrow> prev
       | Inr row \<Rightarrow>
           (case package_write pkg of
              UpdatePackage i u \<Rightarrow> map (\<lambda>p. if pkg_id p = i then row else p) prev
            | _ \<Rightarrow> row # prev)))"
  by (auto simp: truthy_def package_write_def addPackage_def updatePackage_def
           split: option.splits sum.splits)

text \<open>
  The composite save, call by call: nothing is issued when the description list is empty
  or has a blank entry; otherwise the package write is issued; when it fails it is the
  only call; when it succeeds the existence check and then the itinerary write follow,
  and the outcome is the error of the itinerary write when there is one, the saved
  package otherwise. The answer to the existence check only selects the kind of write.
\<close>

lemma addOrUpdatePackageWithItinerary_cases:
  "addOrUpdatePackageWithItinerary pkg descs saved existing written prev =
     (if descs = [] then ([], Inl (JsError ''Itinerary descriptions are required''), prev)
      else if \<exists>d \<in> set descs. trim d = ''''
        then ([], Inl (JsError ''All itinerary descriptions must be filled out''), prev)
      else
        (case saved of
           Inl e \<Rightarrow> ([package_write pkg], Inl e, prev)
         | Inr row \<Rightarrow>
             ([package_write pkg,
               SelectItineraryId (pkg_id row),
               (case existing of
                  Inr (Some existingData) \<Rightarrow>
                    UpdateItinerary (pkg_id row)
                      \<lparr> patch_package_id = None, patch_no_of_days = None,
                        patch_description = Some descs \<rparr>
                | _ \<Rightarrow>
                    InsertItinerary
                      \<lparr> new_package_id = pkg_id row, new_no_of_days = length descs,
                        new_description = descs \<rparr>)],
              (case written of Some e \<Rightarrow> Inl e | None \<Rightarrow> Inr row),
              (case package_write pkg of
                 UpdatePackage i u \<Rightarrow> map (\<lambda>p. if pkg_id p = i then row else p) prev
               | _ \<Rightarrow> row # prev))))"
proof -
  have blank: "list_ex (\<lambda>desc. \<not> truthy (trim desc)) descs = (\<exists>d \<in> set descs. trim d = '''')"
    by (simp add: list_ex_iff truthy_def)
  show ?thesis
  proof (cases saved)
    case (Inl e)
    then show ?thesis
      by (simp add: addOrUpdatePackageWithItinerary_def package_portion blank)
  next
    case (Inr row)
    then show ?thesis
      by (simp add: addOrUpdatePackageWithItinerary_def package_portion blank
            addOrUpdateItinerary_def split: sum.splits option.splits)
  qed
qed

text \<open>
  C1. The composite save is specified to reject an empty description list or one with a
  blank entry, then to write the package (an update when it carries an identifier, an
  insert otherwise) and only then to upsert the itinerary, a failure at any step skipping
  every later step and reaching the caller. The source does so for the validation, for
  the package write and for the itinerary write (the first four facts below: no call on
  an empty or blank list; a failed update is the only call and its error is returned; a
  refused itinerary write is returned). It does not for the existence check inside the
  upsert, of which only \<open>data\<close> is read: when that query fails, the insert is still
  issued, and when the insert is accepted the caller gets the saved package and no
  error (the last fact).
\<close>

theorem addOrUpdatePackageWithItinerary_failed_check:
  "addOrUpdatePackageWithItinerary (example_input (Some ''P1'')) []
       (Inr (example_row ''P1'')) (Inr None) None [example_row ''P1'']
     = ([], Inl (JsError ''Itinerary descriptions are required''), [example_row ''P1'']) \<and>
   addOrUpdatePackageWithItinerary (example_input (Some ''P1'')) [''Day1'', '' '']
       (Inr (example_row ''P1'')) (Inr None) None [example_row ''P1'']
     = ([], Inl (JsError ''All itinerary descriptions must be filled out''),
        [example_row ''P1'']) \<and>
   addOrUpdatePackageWithItinerary (example_input (Some ''P1'')) [''Day1'', ''Day2'']
       (Inl (JsError ''update failed'')) (Inr (Some ''I1'')) None [example_row ''P1'']
     = ([UpdatePackage ''P1'' (example_input (Some ''P1''))], Inl (JsError ''update failed''),
        [example_row ''P1'']) \<and>
   addOrUpdatePackageWithItinerary (example_input (Some ''P1'')) [''Day1'', ''Day2'']
       (Inr (example_row ''P1'')) (Inr (Some ''I1'')) (Some (JsError ''write refused''))
       [example_row ''P1'']
     = ([UpdatePackage ''P1'' (example_input (Some ''P1'')),
         SelectItineraryId ''P1'',
         UpdateItinerary ''P1'' \<lparr> patch_package_id = None, patch_no_of_days = None,
                                  patch_description = Some [''Day1'', ''Day2''] \<rparr>],
        Inl (JsError ''write refused''), [example_row ''P1'']) \<and>
   addOrUpdatePackageWithItinerary (example_input (Some ''P1'')) [''Day1'', ''Day2'']
       (Inr (example_row ''P1'')) (Inl (JsError ''connection lost'')) None
       [example_row ''P1'']
     = ([UpdatePackage ''P1'' (example_input (Some ''P1'')),
         SelectItineraryId ''P1'',
         InsertItinerary \<lparr> new_package_id = ''P1'', new_no_of_days = 2,
                           new_description = [''Day1'', ''Day2''] \<rparr>],
        Inr (example_row ''P1''), [example_row ''P1''])"
  by code_simp

subsection \<open>The itinerary upsert\<close>

text \<open>
  C2. The itinerary upsert is specified to check whether a row exists for the package
  identifier, to update the description list and the day count of an existing row, to
  insert a row with the identifier, the day count and the list otherwise, and to
  propagate every backend failure. In the source the object passed to \<open>.update\<close> holds
  the key \<open>description\<close> alone, so the column \<open>no_of_days\<close> of an existing row is never
  written, while the insert branch does set it to the length of the list. The existence
  check reads only \<open>data\<close>: when that query fails, the upsert goes on to the insert and,
  if the insert is accepted, returns without throwing.
\<close>

theorem addOrUpdateItinerary_existing_row:
  "addOrUpdateItinerary ''P1'' [''Day1'', ''Day2''] (Inr (Some ''I1'')) None
     = ([SelectItineraryId ''P1'',
         UpdateItinerary ''P1'' \<lparr> patch_package_id = None, patch_no_of_days = None,
                                  patch_description = Some [''Day1'', ''Day2''] \<rparr>],
        None) \<and>
   addOrUpdateItinerary ''P1'' [''Day1'', ''Day2''] (Inl (JsError ''connection lost'')) None
     = ([SelectItineraryId ''P1'',
         InsertItinerary \<lparr> new_package_id = ''P1'', new_no_of_days = 2,
                           new_description = [''Day1'', ''Day2''] \<rparr>],
        None)"
  by (simp add: addOrUpdateItinerary_def)

end
